theory Spec2Isabelle
  imports Main
begin

section \<open>The compilation-job polling loop of the TorchVision Neo notebook\<close>

text \<open>
  The code under study is the tail of the notebook's compilation cell:
  \<^verbatim>\<open>
  # Poll every 30 sec
  while True:
      response = sm_client.describe_compilation_job(CompilationJobName=compilation_job_name)
      if response['CompilationJobStatus'] == 'COMPLETED':
          break
      elif response['CompilationJobStatus'] == 'FAILED':
          raise RuntimeError('Compilation failed')
      print('Compiling ...')
      time.sleep(30)
  print('Done!')

  # Extract compiled model artifact
  compiled_model_path = response['ModelArtifacts']['S3ModelArtifacts']
  \<close>
  Everything the loop does beyond computing a value is made explicit: the remote service is
  a script of query outcomes, the notebook's variables are a record, the calls with an
  effect (query, print, sleep) are appended to a trace, an exception is the left summand of
  the result, and a run that never leaves the loop is the value \<open>None\<close>.
\<close>

subsection \<open>Values, errors and effects\<close>

text \<open>
  The values a response of the SDK is made of. A dictionary is an association list read
  with \<open>map_of\<close>. Comparing any value with the string \<open>'COMPLETED'\<close> is true for that
  string only, which is equality of \<open>pyval\<close>.
\<close>

datatype pyval =
    PStr string
  | PInt int
  | PList "pyval list"
  | PDict "(string \<times> pyval) list"

type_synonym pydict = "(string \<times> pyval) list"

text \<open>
  The exceptions of the cell: the \<open>RuntimeError\<close> it raises with its message, the
  \<open>KeyError\<close> of a dictionary subscript with the missing key, the \<open>TypeError\<close> of
  subscripting a value that is no dictionary with a string (its message is not modelled),
  and whatever the SDK's query raises (\<open>ClientError\<close>, with a description).
\<close>

datatype error =
    RuntimeError string
  | KeyError string
  | TypeError
  | ClientError string

datatype event =
    Describe string
  | Print string
  | Sleep int

text \<open>\<open>d[k]\<close> on a dictionary, and \<open>v[k]\<close> on any value, with a string key.\<close>

definition getitem :: "pydict \<Rightarrow> string \<Rightarrow> error + pyval" where
  "getitem d k = (case map_of d k of None \<Rightarrow> Inl (KeyError k) | Some v \<Rightarrow> Inr v)"

fun subscript :: "pyval \<Rightarrow> string \<Rightarrow> error + pyval" where
  "subscript (PDict d) k = getitem d k"
| "subscript (PStr v) k = Inl TypeError"
| "subscript (PInt v) k = Inl TypeError"
| "subscript (PList v) k = Inl TypeError"

text \<open>
  The remote service as the loop sees it: the outcome of the \<open>n\<close>-th call (counted from 0)
  of \<open>describe_compilation_job\<close> for a job name, either an exception or a response.
\<close>

type_synonym service = "string \<Rightarrow> nat \<Rightarrow> error + pydict"

text \<open>
  The variables the code assigns (\<open>response\<close>, \<open>compiled_model_path\<close>), the number of
  queries issued so far, which is the index of the next outcome of the service, and the
  trace of effects in program order.
\<close>

record state =
  response :: pydict
  compiled_model_path :: pyval
  queries :: nat
  trace :: "event list"

subsection \<open>The loop and the extraction\<close>

text \<open>
  The \<open>while True\<close> loop. It ends with \<open>Inr ()\<close> at \<open>break\<close> and with \<open>Inl e\<close> when
  an exception leaves it. The \<open>elif\<close> reads \<open>response['CompilationJobStatus']\<close> a second
  time, from the same dictionary, so it gets the value \<open>st\<close> of the first read.
\<close>

partial_function (option) poll ::
  "service \<Rightarrow> string \<Rightarrow> state \<Rightarrow> ((error + unit) \<times> state) option" where
  "poll sm_client compilation_job_name s =
     (let s1 = s\<lparr>queries := queries s + 1,
                 trace := trace s @ [Describe compilation_job_name]\<rparr>
      in case sm_client compilation_job_name (queries s) of
           Inl e \<Rightarrow> Some (Inl e, s1)
         | Inr r \<Rightarrow>
             (let s2 = s1\<lparr>response := r\<rparr>
              in case getitem r ''CompilationJobStatus'' of
                   Inl e \<Rightarrow> Some (Inl e, s2)
                 | Inr st \<Rightarrow>
                     if st = PStr ''COMPLETED'' then Some (Inr (), s2)
                     else if st = PStr ''FAILED''
                       then Some (Inl (RuntimeError ''Compilation failed''), s2)
                     else poll sm_client compilation_job_name
                            (s2\<lparr>trace := trace s2 @ [Print ''Compiling ...'', Sleep 30]\<rparr>)))"

text \<open>The expression \<open>response['ModelArtifacts']['S3ModelArtifacts']\<close>.\<close>

definition model_artifacts :: "pydict \<Rightarrow> error + pyval" where
  "model_artifacts r =
     (case getitem r ''ModelArtifacts'' of
        Inl e \<Rightarrow> Inl e
      | Inr m \<Rightarrow> subscript m ''S3ModelArtifacts'')"

text \<open>
  The whole wait: the loop, then \<open>print('Done!')\<close> and the assignment of
  \<open>compiled_model_path\<close>. Its value is the one assigned.
\<close>

definition wait :: "service \<Rightarrow> string \<Rightarrow> state \<Rightarrow> ((error + pyval) \<times> state) option" where
  "wait sm_client compilation_job_name s =
     (case poll sm_client compilation_job_name s of
        None \<Rightarrow> None
      | Some (Inl e, s1) \<Rightarrow> Some (Inl e, s1)
      | Some (Inr u, s1) \<Rightarrow>
          (let s2 = s1\<lparr>trace := trace s1 @ [Print ''Done!'']\<rparr>
           in case model_artifacts (response s2) of
                Inl e \<Rightarrow> Some (Inl e, s2)
              | Inr v \<Rightarrow> Some (Inr v, s2\<lparr>compiled_model_path := v\<rparr>)))"

subsection \<open>The loop, pass by pass\<close>

text \<open>
  One pass through the body of the loop, from its head: \<open>Inl\<close> with the result and the
  state when the pass leaves the loop, by \<open>break\<close> or by an exception, and \<open>Inr\<close> with
  the state at the head of the loop when the pass goes round.
\<close>

definition poll_once :: "service \<Rightarrow> string \<Rightarrow> state \<Rightarrow> ((error + unit) \<times> state) + state" where
  "poll_once sm_client compilation_job_name s =
     (let s1 = s\<lparr>queries := queries s + 1,
                 trace := trace s @ [Describe compilation_job_name]\<rparr>
      in case sm_client compilation_job_name (queries s) of
           Inl e \<Rightarrow> Inl (Inl e, s1)
         | Inr r \<Rightarrow>
             (let s2 = s1\<lparr>response := r\<rparr>
              in case getitem r ''CompilationJobStatus'' of
                   Inl e \<Rightarrow> Inl (Inl e, s2)
                 | Inr st \<Rightarrow>
                     if st = PStr ''COMPLETED'' then Inl (Inr (), s2)
                     else if st = PStr ''FAILED''
                       then Inl (Inl (RuntimeError ''Compilation failed''), s2)
                     else Inr (s2\<lparr>trace := trace s2 @ [Print ''Compiling ...'', Sleep 30]\<rparr>)))"

text \<open>
  Where the loop is after at most \<open>k\<close> passes: it has left with a result, or it is at its
  head, about to query again.
\<close>

fun poll_upto ::
  "nat \<Rightarrow> service \<Rightarrow> string \<Rightarrow> state \<Rightarrow> ((error + unit) \<times> state) + state" where
  "poll_upto 0 sm_client compilation_job_name s = Inr s"
| "poll_upto (Suc k) sm_client compilation_job_name s =
     (case poll_once sm_client compilation_job_name s of
        Inl y \<Rightarrow> Inl y
      | Inr s' \<Rightarrow> poll_upto k sm_client compilation_job_name s')"

fun state_of :: "((error + unit) \<times> state) + state \<Rightarrow> state" where
  "state_of (Inl (res, s)) = s"
| "state_of (Inr s) = s"

subsection \<open>Observations\<close>

text \<open>
  What a query lets the loop observe: the status, when the query returned a response that
  has one. The two equality tests of the loop sort a status into three classes.
\<close>

datatype status_class = TerminalSuccess | TerminalFailure | NonTerminal

definition classify :: "pyval \<Rightarrow> status_class" where
  "classify st =
     (if st = PStr ''COMPLETED'' then TerminalSuccess
      else if st = PStr ''FAILED'' then TerminalFailure
      else NonTerminal)"

definition observed :: "error + pydict \<Rightarrow> pyval option" where
  "observed out =
     (case out of
        Inl e \<Rightarrow> None
      | Inr r \<Rightarrow> (case getitem r ''CompilationJobStatus'' of Inl e \<Rightarrow> None | Inr st \<Rightarrow> Some st))"

definition non_terminal :: "error + pydict \<Rightarrow> bool" where
  "non_terminal out =
     (case observed out of None \<Rightarrow> False | Some st \<Rightarrow> classify st = NonTerminal)"

text \<open>The effects of \<open>n\<close> rounds of the loop that did not leave it.\<close>

definition compiling :: "string \<Rightarrow> nat \<Rightarrow> event list" where
  "compiling job n = concat (replicate n [Describe job, Print ''Compiling ...'', Sleep 30])"

text \<open>The state at the head of the loop after \<open>n\<close> such rounds.\<close>

definition last_response :: "service \<Rightarrow> string \<Rightarrow> state \<Rightarrow> nat \<Rightarrow> pydict" where
  "last_response svc job s n =
     (if n = 0 then response s
      else case svc job (queries s + n - 1) of Inl e \<Rightarrow> response s | Inr r \<Rightarrow> r)"

definition after_rounds :: "service \<Rightarrow> string \<Rightarrow> nat \<Rightarrow> state \<Rightarrow> state" where
  "after_rounds svc job n s =
     s\<lparr>response := last_response svc job s n,
       queries := queries s + n,
       trace := trace s @ compiling job n\<rparr>"

text \<open>Reading a trace: the queries in it, and the durations of its sleeps.\<close>

fun is_query :: "event \<Rightarrow> bool" where
  "is_query (Describe j) = True"
| "is_query (Print m) = False"
| "is_query (Sleep d) = False"

definition num_queries :: "event list \<Rightarrow> nat" where
  "num_queries tr = length (filter is_query tr)"

fun sleeps :: "event list \<Rightarrow> int list" where
  "sleeps [] = []"
| "sleeps (Sleep d # tr) = d # sleeps tr"
| "sleeps (Describe j # tr) = sleeps tr"
| "sleeps (Print m # tr) = sleeps tr"

text \<open>
  Two outcomes of queries are in the same class when both are responses with a status and
  the two statuses are sorted alike.
\<close>

definition same_class :: "error + pydict \<Rightarrow> error + pydict \<Rightarrow> bool" where
  "same_class out1 out2 =
     (case (observed out1, observed out2) of
        (Some a, Some b) \<Rightarrow> classify a = classify b
      | _ \<Rightarrow> False)"

subsection \<open>Scenarios\<close>

text \<open>
  The state in which the notebook reaches the loop: \<open>response\<close> holds the acknowledgement
  of the submission, \<open>compiled_model_path\<close> the output location built locally, and nothing
  has been queried.
\<close>

definition notebook_start :: state where
  "notebook_start =
     \<lparr>response = [(''CompilationJobArn'', PStr ''arn:job'')],
      compiled_model_path = PStr ''s3://bucket/job/output'',
      queries = 0,
      trace = []\<rparr>"

definition status_only :: "string \<Rightarrow> pydict" where
  "status_only st = [(''CompilationJobStatus'', PStr st)]"

definition completed_response :: pydict where
  "completed_response =
     [(''CompilationJobStatus'', PStr ''COMPLETED''),
      (''ModelArtifacts'', PDict [(''S3ModelArtifacts'', PStr ''s3://bucket/output/model.tar'')])]"

text \<open>Statuses observed: IN_PROGRESS, IN_PROGRESS, COMPLETED.\<close>

definition scenario_success :: service where
  "scenario_success job k =
     (if k < 2 then Inr (status_only ''IN_PROGRESS'') else Inr completed_response)"

text \<open>Statuses observed: IN_PROGRESS, FAILED.\<close>

definition scenario_failure :: service where
  "scenario_failure job k =
     (if k < 1 then Inr (status_only ''IN_PROGRESS'') else Inr (status_only ''FAILED''))"

text \<open>The first query already fails: the service is unreachable.\<close>

definition scenario_unreachable :: service where
  "scenario_unreachable job k = Inl (ClientError ''EndpointConnectionError'')"

text \<open>One IN_PROGRESS observation, then the query raises.\<close>

definition scenario_fault :: service where
  "scenario_fault job k =
     (if k < 1 then Inr (status_only ''IN_PROGRESS'') else Inl (ClientError ''ThrottlingException''))"

text \<open>Responses that lack a field the code reads.\<close>

definition scenario_no_status :: service where
  "scenario_no_status job k =
     (if k < 1 then Inr (status_only ''IN_PROGRESS'')
      else Inr [(''CompilationJobName'', PStr job)])"

definition scenario_no_artifacts :: service where
  "scenario_no_artifacts job k = Inr (status_only ''COMPLETED'')"

definition scenario_no_locator :: service where
  "scenario_no_locator job k =
     Inr [(''CompilationJobStatus'', PStr ''COMPLETED''), (''ModelArtifacts'', PDict [])]"

text \<open>A job that has failed; the response names the job, as the service's responses do.\<close>

definition scenario_named_failure :: service where
  "scenario_named_failure job k =
     Inr [(''CompilationJobStatus'', PStr ''FAILED''), (''CompilationJobName'', PStr job)]"

text \<open>A job that was stopped: every query observes STOPPED.\<close>

definition scenario_stopped :: service where
  "scenario_stopped job k = Inr (status_only ''STOPPED'')"

text \<open>
  Two sequences of statuses that are sorted alike position by position. The first one
  goes back from IN_PROGRESS to SUBMITTED and from STOPPED to COMPLETED.
\<close>

definition scenario_backwards :: service where
  "scenario_backwards job k =
     Inr (status_only
       (if k = 0 then ''IN_PROGRESS'' else if k = 1 then ''SUBMITTED''
        else if k = 2 then ''STOPPED'' else ''COMPLETED''))"

definition scenario_forwards :: service where
  "scenario_forwards job k =
     Inr (status_only
       (if k = 0 then ''SUBMITTED'' else if k = 1 then ''IN_PROGRESS''
        else if k = 2 then ''IN_PROGRESS'' else ''COMPLETED''))"

subsection \<open>The waiter of the specification\<close>

text \<open>
  The specification describes the waiter as "a sequence of status queries separated by a
  fixed wait interval (fixed at a configurable duration, default chosen for this domain: 30
  time units)". In these words the duration is a parameter of the waiter: \<open>spec_poll\<close> is
  the loop above with the duration of its sleep taken from the parameter \<open>interval\<close>. It is
  the specification's waiter, to be compared with \<open>poll\<close>, the code's.
\<close>

partial_function (option) spec_poll ::
  "int \<Rightarrow> service \<Rightarrow> string \<Rightarrow> state \<Rightarrow> ((error + unit) \<times> state) option" where
  "spec_poll interval sm_client compilation_job_name s =
     (let s1 = s\<lparr>queries := queries s + 1,
                 trace := trace s @ [Describe compilation_job_name]\<rparr>
      in case sm_client compilation_job_name (queries s) of
           Inl e \<Rightarrow> Some (Inl e, s1)
         | Inr r \<Rightarrow>
             (let s2 = s1\<lparr>response := r\<rparr>
              in case getitem r ''CompilationJobStatus'' of
                   Inl e \<Rightarrow> Some (Inl e, s2)
                 | Inr st \<Rightarrow>
                     if st = PStr ''COMPLETED'' then Some (Inr (), s2)
                     else if st = PStr ''FAILED''
                       then Some (Inl (RuntimeError ''Compilation failed''), s2)
                     else spec_poll interval sm_client compilation_job_name
                            (s2\<lparr>trace := trace s2 @ [Print ''Compiling ...'', Sleep interval]\<rparr>)))"

section \<open>Properties of the loop\<close>

subsection \<open>One round, and any number of rounds\<close>

lemma non_terminalE:
  assumes "non_terminal out"
  obtains r st where "out = Inr r" and "getitem r ''CompilationJobStatus'' = Inr st"
    and "st \<noteq> PStr ''COMPLETED''" and "st \<noteq> PStr ''FAILED''"
  using assms
  by (auto simp: non_terminal_def observed_def classify_def
      split: sum.splits option.splits if_splits)

lemma compiling_0: "compiling job 0 = []"
  by (simp add: compiling_def)

lemma compiling_Suc:
  "compiling job (Suc n) = compiling job n @ [Describe job, Print ''Compiling ...'', Sleep 30]"
proof -
  have "replicate (Suc n) x = replicate n x @ [x]" for x :: "event list"
    by (simp add: replicate_append_same)
  then show ?thesis
    unfolding compiling_def by (simp only: concat_append concat.simps append_Nil2)
qed

lemma after_rounds_0: "after_rounds svc job 0 s = s"
  by (simp add: after_rounds_def last_response_def compiling_0)

lemma poll_round:
  assumes "non_terminal (svc job (queries s + n))"
  shows "poll svc job (after_rounds svc job n s) = poll svc job (after_rounds svc job (Suc n) s)"
proof -
  from assms obtain r st where r: "svc job (queries s + n) = Inr r"
    and st: "getitem r ''CompilationJobStatus'' = Inr st"
    and ne: "st \<noteq> PStr ''COMPLETED''" "st \<noteq> PStr ''FAILED''"
    by (rule non_terminalE)
  have "after_rounds svc job (Suc n) s =
        (after_rounds svc job n s)\<lparr>queries := queries (after_rounds svc job n s) + 1,
          response := r,
          trace := trace (after_rounds svc job n s) @
            [Describe job, Print ''Compiling ...'', Sleep 30]\<rparr>"
    using r by (cases s) (simp add: after_rounds_def last_response_def compiling_Suc)
  moreover have "svc job (queries (after_rounds svc job n s)) = Inr r"
    by (simp add: after_rounds_def r)
  ultimately show ?thesis
    by (subst poll.simps) (simp add: st ne)
qed

lemma poll_rounds:
  assumes "\<forall>i<n. non_terminal (svc job (queries s + i))"
  shows "poll svc job s = poll svc job (after_rounds svc job n s)"
  using assms
proof (induction n)
  case 0
  show ?case by (simp add: after_rounds_0)
next
  case (Suc n)
  then have "poll svc job s = poll svc job (after_rounds svc job n s)" by simp
  also have "\<dots> = poll svc job (after_rounds svc job (Suc n) s)"
    using Suc.prems by (intro poll_round) simp
  finally show ?case .
qed

subsection \<open>Leaving the loop\<close>

lemma poll_completed:
  assumes "\<forall>i<n. non_terminal (svc job (queries s + i))"
    and "svc job (queries s + n) = Inr r"
    and "getitem r ''CompilationJobStatus'' = Inr (PStr ''COMPLETED'')"
  shows "poll svc job s =
         Some (Inr (), s\<lparr>response := r, queries := queries s + Suc n,
                          trace := trace s @ compiling job n @ [Describe job]\<rparr>)"
proof -
  have "poll svc job (after_rounds svc job n s) =
        Some (Inr (), s\<lparr>response := r, queries := queries s + Suc n,
                         trace := trace s @ compiling job n @ [Describe job]\<rparr>)"
    using assms(2,3) by (subst poll.simps) (cases s, simp add: after_rounds_def)
  with assms(1) poll_rounds [where svc = svc and job = job and s = s and n = n]
  show ?thesis by simp
qed

lemma poll_failed:
  assumes "\<forall>i<n. non_terminal (svc job (queries s + i))"
    and "svc job (queries s + n) = Inr r"
    and "getitem r ''CompilationJobStatus'' = Inr (PStr ''FAILED'')"
  shows "poll svc job s =
         Some (Inl (RuntimeError ''Compilation failed''),
               s\<lparr>response := r, queries := queries s + Suc n,
                 trace := trace s @ compiling job n @ [Describe job]\<rparr>)"
proof -
  have "poll svc job (after_rounds svc job n s) =
        Some (Inl (RuntimeError ''Compilation failed''),
              s\<lparr>response := r, queries := queries s + Suc n,
                trace := trace s @ compiling job n @ [Describe job]\<rparr>)"
    using assms(2,3) by (subst poll.simps) (cases s, simp add: after_rounds_def)
  with assms(1) poll_rounds [where svc = svc and job = job and s = s and n = n]
  show ?thesis by simp
qed

lemma poll_no_status:
  assumes "\<forall>i<n. non_terminal (svc job (queries s + i))"
    and "svc job (queries s + n) = Inr r"
    and "getitem r ''CompilationJobStatus'' = Inl e"
  shows "poll svc job s =
         Some (Inl e, s\<lparr>response := r, queries := queries s + Suc n,
                        trace := trace s @ compiling job n @ [Describe job]\<rparr>)"
proof -
  have "poll svc job (after_rounds svc job n s) =
        Some (Inl e, s\<lparr>response := r, queries := queries s + Suc n,
                       trace := trace s @ compiling job n @ [Describe job]\<rparr>)"
    using assms(2,3) by (subst poll.simps) (cases s, simp add: after_rounds_def)
  with assms(1) poll_rounds [where svc = svc and job = job and s = s and n = n]
  show ?thesis by simp
qed

lemma poll_query_raises:
  assumes "\<forall>i<n. non_terminal (svc job (queries s + i))"
    and "svc job (queries s + n) = Inl e"
  shows "poll svc job s =
         Some (Inl e, s\<lparr>response := last_response svc job s n, queries := queries s + Suc n,
                        trace := trace s @ compiling job n @ [Describe job]\<rparr>)"
proof -
  have "poll svc job (after_rounds svc job n s) =
        Some (Inl e, s\<lparr>response := last_response svc job s n, queries := queries s + Suc n,
                       trace := trace s @ compiling job n @ [Describe job]\<rparr>)"
    using assms(2) by (subst poll.simps) (cases s, simp add: after_rounds_def)
  with assms(1) poll_rounds [where svc = svc and job = job and s = s and n = n]
  show ?thesis by simp
qed

subsection \<open>A loop that ends has seen an outcome that ends it\<close>

lemma poll_Some_terminal:
  assumes "poll svc job s = Some y"
  shows "\<exists>n. \<not> non_terminal (svc job (queries s + n))"
proof (induction rule: poll.raw_induct [OF _ assms])
  case (1 poll' svc job s y)
  note IH = "1"(1) and body = "1"(2)
  show ?case
  proof (cases "non_terminal (svc job (queries s))")
    case False
    then have "\<not> non_terminal (svc job (queries s + 0))" by simp
    then show ?thesis by blast
  next
    case True
    then obtain r st where r: "svc job (queries s) = Inr r"
      and st: "getitem r ''CompilationJobStatus'' = Inr st"
      and ne: "st \<noteq> PStr ''COMPLETED''" "st \<noteq> PStr ''FAILED''"
      by (rule non_terminalE)
    from body have "poll' svc job
        (s\<lparr>queries := queries s + 1, response := r,
           trace := trace s @ [Describe job, Print ''Compiling ...'', Sleep 30]\<rparr>) = Some y"
      by (simp add: r st ne)
    from IH [OF this] obtain n where "\<not> non_terminal (svc job (queries s + Suc n))"
      by auto
    then show ?thesis by blast
  qed
qed

lemma poll_diverges:
  assumes "\<forall>i. non_terminal (svc job (queries s + i))"
  shows "poll svc job s = None"
proof (cases "poll svc job s")
  case None
  then show ?thesis .
next
  case (Some y)
  from poll_Some_terminal [OF this] assms show ?thesis by blast
qed

lemma poll_exit_cases:
  assumes "poll svc job s = Some (res, s')"
  obtains n where "\<forall>i<n. non_terminal (svc job (queries s + i))"
    and "\<not> non_terminal (svc job (queries s + n))"
    and "queries s' = queries s + Suc n"
    and "trace s' = trace s @ compiling job n @ [Describe job]"
proof -
  define n where "n = (LEAST k. \<not> non_terminal (svc job (queries s + k)))"
  from poll_Some_terminal [OF assms]
  have stop: "\<not> non_terminal (svc job (queries s + n))"
    unfolding n_def by (rule LeastI_ex)
  have run: "\<forall>i<n. non_terminal (svc job (queries s + i))"
    unfolding n_def using not_less_Least by blast
  have "queries s' = queries s + Suc n \<and> trace s' = trace s @ compiling job n @ [Describe job]"
  proof (cases "svc job (queries s + n)")
    case (Inl e)
    from poll_query_raises [where svc = svc and job = job and s = s and n = n and e = e]
      run Inl assms
    show ?thesis by auto
  next
    case (Inr r)
    show ?thesis
    proof (cases "getitem r ''CompilationJobStatus''")
      case (Inl e)
      from poll_no_status [where svc = svc and job = job and s = s and n = n and e = e and r = r]
        run Inr Inl assms
      show ?thesis by auto
    next
      case st: (Inr st)
      from stop Inr st have "st = PStr ''COMPLETED'' \<or> st = PStr ''FAILED''"
        by (auto simp: non_terminal_def observed_def classify_def split: if_splits)
      then show ?thesis
      proof
        assume "st = PStr ''COMPLETED''"
        with poll_completed [where svc = svc and job = job and s = s and n = n and r = r]
          run Inr st assms
        show ?thesis by auto
      next
        assume "st = PStr ''FAILED''"
        with poll_failed [where svc = svc and job = job and s = s and n = n and r = r]
          run Inr st assms
        show ?thesis by auto
      qed
    qed
  qed
  with run stop that show thesis by blast
qed

subsection \<open>The wait as a whole\<close>

lemma wait_completed:
  assumes "\<forall>i<n. non_terminal (svc job (queries s + i))"
    and "svc job (queries s + n) = Inr r"
    and "getitem r ''CompilationJobStatus'' = Inr (PStr ''COMPLETED'')"
  shows "wait svc job s =
         (case model_artifacts r of
            Inl e \<Rightarrow>
              Some (Inl e, s\<lparr>response := r, queries := queries s + Suc n,
                             trace := trace s @ compiling job n @ [Describe job, Print ''Done!'']\<rparr>)
          | Inr v \<Rightarrow>
              Some (Inr v, s\<lparr>response := r, compiled_model_path := v,
                             queries := queries s + Suc n,
                             trace := trace s @ compiling job n @ [Describe job, Print ''Done!'']\<rparr>))"
proof -
  from assms have "poll svc job s =
      Some (Inr (), s\<lparr>response := r, queries := queries s + Suc n,
                       trace := trace s @ compiling job n @ [Describe job]\<rparr>)"
    by (rule poll_completed)
  then show ?thesis
    unfolding wait_def by (cases s) (simp split: sum.splits)
qed

lemma wait_failed:
  assumes "\<forall>i<n. non_terminal (svc job (queries s + i))"
    and "svc job (queries s + n) = Inr r"
    and "getitem r ''CompilationJobStatus'' = Inr (PStr ''FAILED'')"
  shows "wait svc job s =
         Some (Inl (RuntimeError ''Compilation failed''),
               s\<lparr>response := r, queries := queries s + Suc n,
                 trace := trace s @ compiling job n @ [Describe job]\<rparr>)"
  using assms by (simp add: wait_def poll_failed [where n = n and r = r])

lemma wait_no_status:
  assumes "\<forall>i<n. non_terminal (svc job (queries s + i))"
    and "svc job (queries s + n) = Inr r"
    and "getitem r ''CompilationJobStatus'' = Inl e"
  shows "wait svc job s =
         Some (Inl e, s\<lparr>response := r, queries := queries s + Suc n,
                        trace := trace s @ compiling job n @ [Describe job]\<rparr>)"
  using assms by (simp add: wait_def poll_no_status [where n = n and r = r])

lemma wait_query_raises:
  assumes "\<forall>i<n. non_terminal (svc job (queries s + i))"
    and "svc job (queries s + n) = Inl e"
  shows "wait svc job s =
         Some (Inl e, s\<lparr>response := last_response svc job s n, queries := queries s + Suc n,
                        trace := trace s @ compiling job n @ [Describe job]\<rparr>)"
  using assms by (simp add: wait_def poll_query_raises [where n = n])

lemma wait_diverges:
  assumes "\<forall>i. non_terminal (svc job (queries s + i))"
  shows "wait svc job s = None"
  using assms by (simp add: wait_def poll_diverges)

lemma wait_Some_poll:
  assumes "wait svc job s = Some (res, s')"
  obtains u s1 where "poll svc job s = Some (u, s1)" and "queries s' = queries s1"
    and "trace s' = trace s1 \<or> trace s' = trace s1 @ [Print ''Done!'']"
  using assms unfolding wait_def
  by (auto simp: Let_def split: option.splits sum.splits prod.splits)

subsection \<open>Reading the traces\<close>

lemma num_queries_append: "num_queries (xs @ ys) = num_queries xs + num_queries ys"
  by (simp add: num_queries_def)

lemma num_queries_compiling: "num_queries (compiling job n) = n"
proof (induction n)
  case 0
  show ?case by (simp add: compiling_0 num_queries_def)
next
  case (Suc n)
  have "num_queries [Describe job, Print ''Compiling ...'', Sleep 30] = 1"
    by (simp add: num_queries_def)
  with Suc show ?case by (simp add: compiling_Suc num_queries_append)
qed

lemma sleeps_append: "sleeps (xs @ ys) = sleeps xs @ sleeps ys"
  by (induction xs rule: sleeps.induct) simp_all

lemma sleeps_compiling: "sleeps (compiling job n) = replicate n 30"
  by (induction n) (simp_all add: compiling_0 compiling_Suc sleeps_append replicate_append_same)

subsection \<open>The loop and its passes\<close>

lemma poll_poll_once:
  "poll svc job s = (case poll_once svc job s of Inl y \<Rightarrow> Some y | Inr s' \<Rightarrow> poll svc job s')"
  by (subst poll.simps) (simp add: poll_once_def Let_def split: sum.splits)

lemma poll_poll_upto:
  "poll svc job s = (case poll_upto k svc job s of Inl y \<Rightarrow> Some y | Inr s' \<Rightarrow> poll svc job s')"
proof (induction k arbitrary: s)
  case 0
  show ?case by simp
next
  case (Suc k)
  show ?case
  proof (cases "poll_once svc job s")
    case (Inl y)
    then show ?thesis
      by (subst poll_poll_once) simp
  next
    case (Inr s1)
    then have "poll svc job s = poll svc job s1"
      by (subst poll_poll_once) simp
    also have "\<dots> = (case poll_upto k svc job s1 of
        Inl y \<Rightarrow> Some y | Inr s' \<Rightarrow> poll svc job s')"
      by (rule Suc.IH)
    finally show ?thesis
      using Inr by simp
  qed
qed

lemma poll_upto_Suc_last:
  "poll_upto (Suc k) svc job s =
     (case poll_upto k svc job s of Inl y \<Rightarrow> Inl y | Inr s' \<Rightarrow> poll_once svc job s')"
proof (induction k arbitrary: s)
  case 0
  show ?case by (simp split: sum.splits)
next
  case (Suc k)
  show ?case
  proof (cases "poll_once svc job s")
    case (Inl y)
    then show ?thesis by simp
  next
    case (Inr s1)
    have "poll_upto (Suc (Suc k)) svc job s = poll_upto (Suc k) svc job s1"
      using Inr by simp
    also have "\<dots> = (case poll_upto k svc job s1 of
        Inl y \<Rightarrow> Inl y | Inr s' \<Rightarrow> poll_once svc job s')"
      by (rule Suc.IH)
    also have "poll_upto k svc job s1 = poll_upto (Suc k) svc job s"
      using Inr by simp
    finally show ?thesis .
  qed
qed

lemma poll_once_round:
  assumes "non_terminal (svc job (queries s + n))"
  shows "poll_once svc job (after_rounds svc job n s) = Inr (after_rounds svc job (Suc n) s)"
proof -
  from assms obtain r st where r: "svc job (queries s + n) = Inr r"
    and st: "getitem r ''CompilationJobStatus'' = Inr st"
    and ne: "st \<noteq> PStr ''COMPLETED''" "st \<noteq> PStr ''FAILED''"
    by (rule non_terminalE)
  have "after_rounds svc job (Suc n) s =
        (after_rounds svc job n s)\<lparr>queries := queries (after_rounds svc job n s) + 1,
          response := r,
          trace := trace (after_rounds svc job n s) @
            [Describe job, Print ''Compiling ...'', Sleep 30]\<rparr>"
    using r by (cases s) (simp add: after_rounds_def last_response_def compiling_Suc)
  moreover have "svc job (queries (after_rounds svc job n s)) = Inr r"
    by (simp add: after_rounds_def r)
  ultimately show ?thesis
    by (simp add: poll_once_def st ne)
qed

lemma poll_upto_rounds:
  assumes "\<forall>i<n. non_terminal (svc job (queries s + i))"
  shows "poll_upto n svc job s = Inr (after_rounds svc job n s)"
  using assms
proof (induction n)
  case 0
  show ?case by (simp add: after_rounds_0)
next
  case (Suc n)
  then have "poll_upto n svc job s = Inr (after_rounds svc job n s)" by simp
  then have "poll_upto (Suc n) svc job s = poll_once svc job (after_rounds svc job n s)"
    by (simp only: poll_upto_Suc_last sum.case)
  also have "\<dots> = Inr (after_rounds svc job (Suc n) s)"
    using Suc.prems by (intro poll_once_round) simp
  finally show ?case .
qed

lemma poll_once_queries:
  "queries (state_of (poll_once svc job s)) = queries s + 1 \<and>
   (\<exists>tl. trace (state_of (poll_once svc job s)) = trace s @ Describe job # tl)"
  by (simp add: poll_once_def Let_def split: sum.splits)

lemma poll_once_leaves:
  assumes "\<not> non_terminal (svc job (queries s))"
  shows "\<exists>y. poll_once svc job s = Inl y"
  using assms
  by (auto simp: poll_once_def Let_def non_terminal_def observed_def classify_def
      split: sum.splits)

lemma poll_Some_iff_upto:
  "poll svc job s = Some y \<longleftrightarrow> (\<exists>k. poll_upto k svc job s = Inl y)"
proof
  assume p: "poll svc job s = Some y"
  obtain res s' where y: "y = (res, s')" by (cases y)
  from p obtain n where run: "\<forall>i<n. non_terminal (svc job (queries s + i))"
    and stop: "\<not> non_terminal (svc job (queries s + n))"
    unfolding y by (rule poll_exit_cases)
  from run have head: "poll_upto n svc job s = Inr (after_rounds svc job n s)"
    by (rule poll_upto_rounds)
  from stop have "\<not> non_terminal (svc job (queries (after_rounds svc job n s)))"
    by (simp add: after_rounds_def)
  then obtain y' where "poll_once svc job (after_rounds svc job n s) = Inl y'"
    using poll_once_leaves by blast
  with head have last: "poll_upto (Suc n) svc job s = Inl y'"
    by (simp only: poll_upto_Suc_last sum.case)
  with poll_poll_upto [where svc = svc and job = job and s = s and k = "Suc n"]
  have "poll svc job s = Some y'" by simp
  with p have "y' = y" by simp
  with last have "poll_upto (Suc n) svc job s = Inl y" by (simp only:)
  then show "\<exists>k. poll_upto k svc job s = Inl y" by (rule exI)
next
  assume "\<exists>k. poll_upto k svc job s = Inl y"
  then obtain k where "poll_upto k svc job s = Inl y" ..
  with poll_poll_upto [where svc = svc and job = job and s = s and k = k]
  show "poll svc job s = Some y" by simp
qed

lemma wait_ends:
  assumes "\<not> non_terminal (svc job (queries s + m))"
  shows "\<exists>res s'. wait svc job s = Some (res, s')"
proof -
  define n where "n = (LEAST k. \<not> non_terminal (svc job (queries s + k)))"
  from assms have stop: "\<not> non_terminal (svc job (queries s + n))"
    unfolding n_def by (rule LeastI)
  have run: "\<forall>i<n. non_terminal (svc job (queries s + i))"
    unfolding n_def using not_less_Least by blast
  show ?thesis
  proof (cases "svc job (queries s + n)")
    case (Inl e)
    with run wait_query_raises [where svc = svc and job = job and s = s and n = n and e = e]
    show ?thesis by blast
  next
    case (Inr r)
    show ?thesis
    proof (cases "getitem r ''CompilationJobStatus''")
      case (Inl e)
      with run Inr wait_no_status [where svc = svc and job = job and s = s and n = n
          and e = e and r = r]
      show ?thesis by blast
    next
      case st: (Inr st)
      from stop Inr st have "st = PStr ''COMPLETED'' \<or> st = PStr ''FAILED''"
        by (auto simp: non_terminal_def observed_def classify_def split: if_splits)
      then show ?thesis
      proof
        assume "st = PStr ''COMPLETED''"
        with run Inr st
          wait_completed [where svc = svc and job = job and s = s and n = n and r = r]
        show ?thesis by (cases "model_artifacts r") simp_all
      next
        assume "st = PStr ''FAILED''"
        with run Inr st
          wait_failed [where svc = svc and job = job and s = s and n = n and r = r]
        show ?thesis by blast
      qed
    qed
  qed
qed

lemma wait_None_iff:
  "wait svc job s = None \<longleftrightarrow> (\<forall>i. non_terminal (svc job (queries s + i)))"
proof
  assume none: "wait svc job s = None"
  show "\<forall>i. non_terminal (svc job (queries s + i))"
  proof (rule ccontr)
    assume "\<not> (\<forall>i. non_terminal (svc job (queries s + i)))"
    then obtain m where "\<not> non_terminal (svc job (queries s + m))" by blast
    then have "\<exists>res s'. wait svc job s = Some (res, s')" by (rule wait_ends)
    with none show False by simp
  qed
next
  assume "\<forall>i. non_terminal (svc job (queries s + i))"
  then show "wait svc job s = None" by (rule wait_diverges)
qed

subsection \<open>Fields that are present\<close>

lemma getitem_present: "map_of d k = Some v \<Longrightarrow> getitem d k = Inr v"
  by (simp add: getitem_def)

lemma model_artifacts_present:
  assumes "map_of r ''ModelArtifacts'' = Some (PDict d)"
    and "map_of d ''S3ModelArtifacts'' = Some loc"
  shows "model_artifacts r = Inr loc"
  using assms by (simp add: model_artifacts_def getitem_def)

section \<open>The claims\<close>

text \<open>
  In what follows a sequence of status observations is given by the number \<open>n\<close> of
  observations that did not end the loop, each a response whose status is neither
  \<open>'COMPLETED'\<close> nor \<open>'FAILED'\<close>, and by the outcome of the query after them.
\<close>

text \<open>
  C1. For every sequence of status observations that ends in the terminal-success status,
  the wait returns the result locator extracted from the final response: the value
  \<open>loc\<close> stored under the key \<open>'S3ModelArtifacts'\<close> of the dictionary stored under the
  key \<open>'ModelArtifacts'\<close> of that response. This value is also what
  \<open>compiled_model_path\<close> holds afterwards, whatever output path it held before.
\<close>

theorem wait_returns_model_artifacts:
  assumes "\<forall>i<n. non_terminal (svc job (queries s + i))"
    and "svc job (queries s + n) = Inr r"
    and "map_of r ''CompilationJobStatus'' = Some (PStr ''COMPLETED'')"
    and "map_of r ''ModelArtifacts'' = Some (PDict d)"
    and "map_of d ''S3ModelArtifacts'' = Some loc"
  shows "wait svc job s =
         Some (Inr loc, s\<lparr>response := r, compiled_model_path := loc,
                          queries := queries s + Suc n,
                          trace := trace s @ compiling job n @ [Describe job, Print ''Done!'']\<rparr>)"
proof -
  from assms(3) have "getitem r ''CompilationJobStatus'' = Inr (PStr ''COMPLETED'')"
    by (rule getitem_present)
  with assms(1,2) have "wait svc job s =
      (case model_artifacts r of
         Inl e \<Rightarrow>
           Some (Inl e, s\<lparr>response := r, queries := queries s + Suc n,
                          trace := trace s @ compiling job n @ [Describe job, Print ''Done!'']\<rparr>)
       | Inr v \<Rightarrow>
           Some (Inr v, s\<lparr>response := r, compiled_model_path := v,
                          queries := queries s + Suc n,
                          trace := trace s @ compiling job n @ [Describe job, Print ''Done!'']\<rparr>))"
    by (rule wait_completed)
  with model_artifacts_present [OF assms(4,5)] show ?thesis
    by simp
qed

theorem wait_returns_model_artifacts_witness:
  "non_terminal (scenario_success ''job'' 0) \<and> non_terminal (scenario_success ''job'' 1) \<and>
   compiled_model_path notebook_start = PStr ''s3://bucket/job/output'' \<and>
   wait scenario_success ''job'' notebook_start =
     Some (Inr (PStr ''s3://bucket/output/model.tar''),
           \<lparr>response = completed_response,
            compiled_model_path = PStr ''s3://bucket/output/model.tar'',
            queries = 3,
            trace = [Describe ''job'', Print ''Compiling ...'', Sleep 30,
                     Describe ''job'', Print ''Compiling ...'', Sleep 30,
                     Describe ''job'', Print ''Done!'']\<rparr>)"
  using wait_returns_model_artifacts [where svc = scenario_success and job = "''job''"
      and s = notebook_start and n = 2 and r = completed_response
      and d = "[(''S3ModelArtifacts'', PStr ''s3://bucket/output/model.tar'')]"
      and loc = "PStr ''s3://bucket/output/model.tar''"]
  by (simp add: scenario_success_def notebook_start_def completed_response_def status_only_def
      non_terminal_def observed_def classify_def getitem_def compiling_def eval_nat_numeral)

text \<open>
  C3. For every sequence of status observations that ends in terminal-success, with \<open>n\<close>
  observations before the terminal one, the wait issues \<open>n + 1\<close> queries: each of the first
  \<open>n\<close> is followed by one sleep of 30, and the terminal query by no sleep. For the
  observations IN_PROGRESS, IN_PROGRESS, COMPLETED these are 3 queries and 2 sleeps.
\<close>

theorem wait_success_queries_and_sleeps:
  assumes "\<forall>i<n. non_terminal (svc job (queries s + i))"
    and "svc job (queries s + n) = Inr r"
    and "getitem r ''CompilationJobStatus'' = Inr (PStr ''COMPLETED'')"
  shows "\<exists>res s'. wait svc job s = Some (res, s') \<and>
           queries s' = queries s + (n + 1) \<and>
           trace s' = trace s @ compiling job n @ [Describe job, Print ''Done!''] \<and>
           num_queries (trace s') = num_queries (trace s) + (n + 1) \<and>
           sleeps (trace s') = sleeps (trace s) @ replicate n 30"
proof -
  have "num_queries [Describe job, Print ''Done!''] = 1"
    by (simp add: num_queries_def)
  with wait_completed [where svc = svc and job = job and s = s and n = n and r = r] assms
  show ?thesis
    by (cases "model_artifacts r")
      (simp_all add: num_queries_append num_queries_compiling sleeps_append sleeps_compiling)
qed

theorem wait_success_queries_and_sleeps_witness:
  "\<exists>res s'. wait scenario_success ''job'' notebook_start = Some (res, s') \<and>
     queries s' = 3 \<and>
     trace s' = [Describe ''job'', Print ''Compiling ...'', Sleep 30,
                 Describe ''job'', Print ''Compiling ...'', Sleep 30,
                 Describe ''job'', Print ''Done!''] \<and>
     num_queries (trace s') = 3 \<and>
     sleeps (trace s') = [30, 30]"
  using wait_success_queries_and_sleeps [where svc = scenario_success and job = "''job''"
      and s = notebook_start and n = 2 and r = completed_response]
  by (simp add: scenario_success_def notebook_start_def completed_response_def status_only_def
      non_terminal_def observed_def classify_def getitem_def compiling_def num_queries_def
      eval_nat_numeral)

text \<open>
  C4. For every sequence of status observations that ends in the terminal-failure status,
  the wait raises the failure error, and the query that observed the failure is the last
  effect of the run: no query follows it. For the observations IN_PROGRESS, FAILED the
  error is raised after 2 queries.
\<close>

theorem wait_failure_no_further_query:
  assumes "\<forall>i<n. non_terminal (svc job (queries s + i))"
    and "svc job (queries s + n) = Inr r"
    and "getitem r ''CompilationJobStatus'' = Inr (PStr ''FAILED'')"
  shows "\<exists>s'. wait svc job s = Some (Inl (RuntimeError ''Compilation failed''), s') \<and>
           queries s' = queries s + (n + 1) \<and>
           trace s' = trace s @ compiling job n @ [Describe job] \<and>
           num_queries (trace s') = num_queries (trace s) + (n + 1)"
proof -
  have "num_queries [Describe job] = 1"
    by (simp add: num_queries_def)
  with wait_failed [where svc = svc and job = job and s = s and n = n and r = r] assms
  show ?thesis
    by (simp add: num_queries_append num_queries_compiling)
qed

theorem wait_failure_no_further_query_witness:
  "\<exists>s'. wait scenario_failure ''job'' notebook_start =
          Some (Inl (RuntimeError ''Compilation failed''), s') \<and>
     queries s' = 2 \<and>
     trace s' = [Describe ''job'', Print ''Compiling ...'', Sleep 30, Describe ''job''] \<and>
     num_queries (trace s') = 2"
  using wait_failure_no_further_query [where svc = scenario_failure and job = "''job''"
      and s = notebook_start and n = 1 and r = "status_only ''FAILED''"]
  by (simp add: scenario_failure_def notebook_start_def status_only_def
      non_terminal_def observed_def classify_def getitem_def compiling_def num_queries_def
      eval_nat_numeral)

text \<open>
  C8. If a status query itself raises, after any number of non-terminal observations, the
  wait ends with that very error: the failed query is the last effect of the run, so there
  is no retry, no further query and no further sleep.
\<close>

theorem wait_query_error_propagates:
  assumes "\<forall>i<n. non_terminal (svc job (queries s + i))"
    and "svc job (queries s + n) = Inl e"
  shows "wait svc job s =
         Some (Inl e, s\<lparr>response := last_response svc job s n,
                        queries := queries s + Suc n,
                        trace := trace s @ compiling job n @ [Describe job]\<rparr>)"
  using assms by (rule wait_query_raises)

theorem wait_query_error_propagates_witness:
  "wait scenario_fault ''job'' notebook_start =
     Some (Inl (ClientError ''ThrottlingException''),
           \<lparr>response = status_only ''IN_PROGRESS'',
            compiled_model_path = PStr ''s3://bucket/job/output'',
            queries = 2,
            trace = [Describe ''job'', Print ''Compiling ...'', Sleep 30, Describe ''job'']\<rparr>) \<and>
   wait scenario_unreachable ''job'' notebook_start =
     Some (Inl (ClientError ''EndpointConnectionError''),
           notebook_start\<lparr>queries := 1, trace := [Describe ''job'']\<rparr>)"
  using wait_query_error_propagates [where svc = scenario_fault and job = "''job''"
      and s = notebook_start and n = 1 and e = "ClientError ''ThrottlingException''"]
    wait_query_error_propagates [where svc = scenario_unreachable and job = "''job''"
      and s = notebook_start and n = 0 and e = "ClientError ''EndpointConnectionError''"]
  by (simp add: scenario_fault_def scenario_unreachable_def notebook_start_def status_only_def
      non_terminal_def observed_def classify_def getitem_def compiling_def last_response_def
      eval_nat_numeral)

text \<open>
  C9. The subscripts are unguarded. After any number of non-terminal observations: a
  response without the key \<open>'CompilationJobStatus'\<close> makes the wait raise the KeyError of
  that key; a COMPLETED response without the key \<open>'ModelArtifacts'\<close>, or whose
  \<open>'ModelArtifacts'\<close> dictionary has no key \<open>'S3ModelArtifacts'\<close>, makes it raise the
  KeyError of the missing key. In each case the wait neither returns a value nor raises
  the job-failure error.
\<close>

theorem wait_missing_field_key_error:
  assumes "\<forall>i<n. non_terminal (svc job (queries s + i))"
    and "svc job (queries s + n) = Inr r"
  shows "(map_of r ''CompilationJobStatus'' = None \<longrightarrow>
            map_option fst (wait svc job s) = Some (Inl (KeyError ''CompilationJobStatus''))) \<and>
         (getitem r ''CompilationJobStatus'' = Inr (PStr ''COMPLETED'') \<and>
            map_of r ''ModelArtifacts'' = None \<longrightarrow>
            map_option fst (wait svc job s) = Some (Inl (KeyError ''ModelArtifacts''))) \<and>
         (getitem r ''CompilationJobStatus'' = Inr (PStr ''COMPLETED'') \<and>
            map_of r ''ModelArtifacts'' = Some (PDict d) \<and>
            map_of d ''S3ModelArtifacts'' = None \<longrightarrow>
            map_option fst (wait svc job s) = Some (Inl (KeyError ''S3ModelArtifacts'')))"
proof (intro conjI impI)
  assume "map_of r ''CompilationJobStatus'' = None"
  then have "getitem r ''CompilationJobStatus'' = Inl (KeyError ''CompilationJobStatus'')"
    by (simp add: getitem_def)
  with assms show "map_option fst (wait svc job s) = Some (Inl (KeyError ''CompilationJobStatus''))"
    by (simp add: wait_no_status [where n = n and r = r])
next
  assume "getitem r ''CompilationJobStatus'' = Inr (PStr ''COMPLETED'') \<and>
          map_of r ''ModelArtifacts'' = None"
  then have c: "getitem r ''CompilationJobStatus'' = Inr (PStr ''COMPLETED'')"
    and m: "model_artifacts r = Inl (KeyError ''ModelArtifacts'')"
    by (simp_all add: model_artifacts_def getitem_def)
  from assms c have "wait svc job s =
      (case model_artifacts r of
         Inl e \<Rightarrow>
           Some (Inl e, s\<lparr>response := r, queries := queries s + Suc n,
                          trace := trace s @ compiling job n @ [Describe job, Print ''Done!'']\<rparr>)
       | Inr v \<Rightarrow>
           Some (Inr v, s\<lparr>response := r, compiled_model_path := v,
                          queries := queries s + Suc n,
                          trace := trace s @ compiling job n @ [Describe job, Print ''Done!'']\<rparr>))"
    by (rule wait_completed)
  with m show "map_option fst (wait svc job s) = Some (Inl (KeyError ''ModelArtifacts''))"
    by simp
next
  assume "getitem r ''CompilationJobStatus'' = Inr (PStr ''COMPLETED'') \<and>
          map_of r ''ModelArtifacts'' = Some (PDict d) \<and>
          map_of d ''S3ModelArtifacts'' = None"
  then have c: "getitem r ''CompilationJobStatus'' = Inr (PStr ''COMPLETED'')"
    and m: "model_artifacts r = Inl (KeyError ''S3ModelArtifacts'')"
    by (simp_all add: model_artifacts_def getitem_def)
  from assms c have "wait svc job s =
      (case model_artifacts r of
         Inl e \<Rightarrow>
           Some (Inl e, s\<lparr>response := r, queries := queries s + Suc n,
                          trace := trace s @ compiling job n @ [Describe job, Print ''Done!'']\<rparr>)
       | Inr v \<Rightarrow>
           Some (Inr v, s\<lparr>response := r, compiled_model_path := v,
                          queries := queries s + Suc n,
                          trace := trace s @ compiling job n @ [Describe job, Print ''Done!'']\<rparr>))"
    by (rule wait_completed)
  with m show "map_option fst (wait svc job s) = Some (Inl (KeyError ''S3ModelArtifacts''))"
    by simp
qed

theorem wait_missing_field_key_error_witness:
  "map_option fst (wait scenario_no_status ''job'' notebook_start) =
     Some (Inl (KeyError ''CompilationJobStatus'')) \<and>
   map_option fst (wait scenario_no_artifacts ''job'' notebook_start) =
     Some (Inl (KeyError ''ModelArtifacts'')) \<and>
   map_option fst (wait scenario_no_locator ''job'' notebook_start) =
     Some (Inl (KeyError ''S3ModelArtifacts''))"
  using wait_missing_field_key_error [where svc = scenario_no_status and job = "''job''"
      and s = notebook_start and n = 1 and r = "[(''CompilationJobName'', PStr ''job'')]"]
    wait_missing_field_key_error [where svc = scenario_no_artifacts and job = "''job''"
      and s = notebook_start and n = 0 and r = "status_only ''COMPLETED''"]
    wait_missing_field_key_error [where svc = scenario_no_locator and job = "''job''"
      and s = notebook_start and n = 0 and d = "[]"
      and r = "[(''CompilationJobStatus'', PStr ''COMPLETED''), (''ModelArtifacts'', PDict [])]"]
  by (simp add: scenario_no_status_def scenario_no_artifacts_def scenario_no_locator_def
      notebook_start_def status_only_def non_terminal_def observed_def classify_def getitem_def)

text \<open>
  C10. If the very first observed status is terminal, the wait ends after one query and no
  sleep. On \<open>'COMPLETED'\<close> its effects are the query and \<open>print('Done!')\<close>, and it returns
  the result locator of that response, the value \<open>loc\<close> stored under
  \<open>['ModelArtifacts']['S3ModelArtifacts']\<close>; on \<open>'FAILED'\<close> its only effect is the query
  and it raises the failure error.
\<close>

theorem wait_first_observation_terminal:
  assumes "svc job (queries s) = Inr r"
  shows "(map_of r ''CompilationJobStatus'' = Some (PStr ''COMPLETED'') \<and>
            map_of r ''ModelArtifacts'' = Some (PDict d) \<and>
            map_of d ''S3ModelArtifacts'' = Some loc \<longrightarrow>
            wait svc job s =
              Some (Inr loc, s\<lparr>response := r, compiled_model_path := loc,
                               queries := queries s + 1,
                               trace := trace s @ [Describe job, Print ''Done!'']\<rparr>)) \<and>
         (map_of r ''CompilationJobStatus'' = Some (PStr ''FAILED'') \<longrightarrow>
            wait svc job s =
              Some (Inl (RuntimeError ''Compilation failed''),
                    s\<lparr>response := r, queries := queries s + 1,
                      trace := trace s @ [Describe job]\<rparr>))"
proof (intro conjI impI)
  assume a: "map_of r ''CompilationJobStatus'' = Some (PStr ''COMPLETED'') \<and>
      map_of r ''ModelArtifacts'' = Some (PDict d) \<and>
      map_of d ''S3ModelArtifacts'' = Some loc"
  then have "getitem r ''CompilationJobStatus'' = Inr (PStr ''COMPLETED'')"
    and "model_artifacts r = Inr loc"
    by (simp_all add: getitem_present model_artifacts_present [where d = d])
  with assms wait_completed [where svc = svc and job = job and s = s and n = 0 and r = r]
  show "wait svc job s =
      Some (Inr loc, s\<lparr>response := r, compiled_model_path := loc,
                       queries := queries s + 1,
                       trace := trace s @ [Describe job, Print ''Done!'']\<rparr>)"
    by (simp add: compiling_0)
next
  assume "map_of r ''CompilationJobStatus'' = Some (PStr ''FAILED'')"
  then have "getitem r ''CompilationJobStatus'' = Inr (PStr ''FAILED'')"
    by (rule getitem_present)
  with assms wait_failed [where svc = svc and job = job and s = s and n = 0 and r = r]
  show "wait svc job s =
      Some (Inl (RuntimeError ''Compilation failed''),
            s\<lparr>response := r, queries := queries s + 1, trace := trace s @ [Describe job]\<rparr>)"
    by (simp add: compiling_0)
qed

theorem wait_first_observation_terminal_witness:
  "wait (\<lambda>job k. Inr completed_response) ''job'' notebook_start =
     Some (Inr (PStr ''s3://bucket/output/model.tar''),
           \<lparr>response = completed_response,
            compiled_model_path = PStr ''s3://bucket/output/model.tar'',
            queries = 1,
            trace = [Describe ''job'', Print ''Done!'']\<rparr>) \<and>
   wait (\<lambda>job k. Inr (status_only ''FAILED'')) ''job'' notebook_start =
     Some (Inl (RuntimeError ''Compilation failed''),
           \<lparr>response = status_only ''FAILED'',
            compiled_model_path = PStr ''s3://bucket/job/output'',
            queries = 1,
            trace = [Describe ''job'']\<rparr>) \<and>
   sleeps [Describe ''job'', Print ''Done!''] = [] \<and> sleeps [Describe ''job''] = []"
  using wait_first_observation_terminal [where svc = "\<lambda>job k. Inr completed_response"
      and job = "''job''" and s = notebook_start and r = completed_response
      and d = "[(''S3ModelArtifacts'', PStr ''s3://bucket/output/model.tar'')]"
      and loc = "PStr ''s3://bucket/output/model.tar''"]
    wait_first_observation_terminal [where svc = "\<lambda>job k. Inr (status_only ''FAILED'')"
      and job = "''job''" and s = notebook_start and r = "status_only ''FAILED''"]
  by (simp add: notebook_start_def completed_response_def status_only_def)

text \<open>
  C2, as the code has it. Whenever the observed status is the terminal-failure value, the
  wait fails with \<open>RuntimeError('Compilation failed')\<close>. The error is this fixed value for
  every job identifier and every response; the last response is what the variable
  \<open>response\<close> holds when the error is raised.
\<close>

theorem wait_failure_error_fixed:
  assumes "\<forall>i<n. non_terminal (svc job (queries s + i))"
    and "svc job (queries s + n) = Inr r"
    and "getitem r ''CompilationJobStatus'' = Inr (PStr ''FAILED'')"
  shows "map_option fst (wait svc job s) = Some (Inl (RuntimeError ''Compilation failed'')) \<and>
         map_option (response \<circ> snd) (wait svc job s) = Some r"
  using assms by (simp add: wait_failed [where n = n and r = r])

theorem wait_failure_error_fixed_witness:
  "map_option fst (wait scenario_failure ''job'' notebook_start) =
     Some (Inl (RuntimeError ''Compilation failed'')) \<and>
   map_option (response \<circ> snd) (wait scenario_failure ''job'' notebook_start) =
     Some (status_only ''FAILED'')"
  using wait_failure_error_fixed [where svc = scenario_failure and job = "''job''"
      and s = notebook_start and n = 1 and r = "status_only ''FAILED''"]
  by (simp add: scenario_failure_def notebook_start_def status_only_def
      non_terminal_def observed_def classify_def getitem_def)

text \<open>
  C2, as the claim has it, fails: two waits for two different jobs, whose last responses
  differ, raise one and the same error value, so the error carries neither the job
  identifier nor the last response.
\<close>

theorem wait_failure_error_counterexample:
  "map_option fst (wait scenario_named_failure ''job-a'' notebook_start) =
     Some (Inl (RuntimeError ''Compilation failed'')) \<and>
   map_option fst (wait scenario_named_failure ''job-b'' notebook_start) =
     Some (Inl (RuntimeError ''Compilation failed'')) \<and>
   map_option (response \<circ> snd) (wait scenario_named_failure ''job-a'' notebook_start) =
     Some [(''CompilationJobStatus'', PStr ''FAILED''), (''CompilationJobName'', PStr ''job-a'')] \<and>
   map_option (response \<circ> snd) (wait scenario_named_failure ''job-b'' notebook_start) =
     Some [(''CompilationJobStatus'', PStr ''FAILED''), (''CompilationJobName'', PStr ''job-b'')]"
  using wait_failed [where svc = scenario_named_failure and job = "''job-a''"
      and s = notebook_start and n = 0
      and r = "[(''CompilationJobStatus'', PStr ''FAILED''), (''CompilationJobName'', PStr ''job-a'')]"]
    wait_failed [where svc = scenario_named_failure and job = "''job-b''"
      and s = notebook_start and n = 0
      and r = "[(''CompilationJobStatus'', PStr ''FAILED''), (''CompilationJobName'', PStr ''job-b'')]"]
  by (simp add: scenario_named_failure_def notebook_start_def getitem_def)

text \<open>
  C5. There is no local timeout. For every \<open>N\<close>, if the first \<open>N\<close> observed statuses are
  non-terminal (any value but \<open>'COMPLETED'\<close> and \<open>'FAILED'\<close>, for instance STOPPED), then
  after \<open>N\<close> passes the loop has not been left: it is at its head with \<open>N\<close> queries
  issued, and its next pass issues query \<open>N + 1\<close>, whatever that query observes. The wait
  ends exactly when some query does not observe a non-terminal status, and a wait that
  ends has issued more than \<open>N\<close> queries; if every observed status is non-terminal the
  wait never ends and the loop is at its head after any number of passes. The passes
  are those of the loop: the loop ends with a result exactly when some number of passes
  does.
\<close>

theorem wait_no_local_timeout:
  "(poll svc job s = Some y \<longleftrightarrow> (\<exists>k. poll_upto k svc job s = Inl y)) \<and>
   (wait svc job s = None \<longleftrightarrow> (\<forall>i. non_terminal (svc job (queries s + i)))) \<and>
   ((\<forall>i<N. non_terminal (svc job (queries s + i))) \<longrightarrow>
      poll_upto N svc job s = Inr (after_rounds svc job N s) \<and>
      queries (after_rounds svc job N s) = queries s + N \<and>
      queries (state_of (poll_upto (Suc N) svc job s)) = queries s + N + 1 \<and>
      (\<exists>tl. trace (state_of (poll_upto (Suc N) svc job s)) =
             trace s @ compiling job N @ Describe job # tl) \<and>
      wait svc job s = wait svc job (after_rounds svc job N s) \<and>
      (\<forall>res s'. wait svc job s = Some (res, s') \<longrightarrow> queries s + N < queries s')) \<and>
   ((\<forall>i. non_terminal (svc job (queries s + i))) \<longrightarrow>
      wait svc job s = None \<and>
      (\<forall>k. poll_upto k svc job s = Inr (after_rounds svc job k s)))"
proof (intro conjI impI allI)
  show "poll svc job s = Some y \<longleftrightarrow> (\<exists>k. poll_upto k svc job s = Inl y)"
    by (rule poll_Some_iff_upto)
  show "wait svc job s = None \<longleftrightarrow> (\<forall>i. non_terminal (svc job (queries s + i)))"
    by (rule wait_None_iff)
next
  assume run: "\<forall>i<N. non_terminal (svc job (queries s + i))"
  then show head: "poll_upto N svc job s = Inr (after_rounds svc job N s)"
    by (rule poll_upto_rounds)
  then have next_pass:
    "poll_upto (Suc N) svc job s = poll_once svc job (after_rounds svc job N s)"
    by (simp only: poll_upto_Suc_last sum.case)
  show "queries (after_rounds svc job N s) = queries s + N"
    by (simp add: after_rounds_def)
  from poll_once_queries [where svc = svc and job = job and s = "after_rounds svc job N s"]
  show "queries (state_of (poll_upto (Suc N) svc job s)) = queries s + N + 1"
    and "\<exists>tl. trace (state_of (poll_upto (Suc N) svc job s)) =
           trace s @ compiling job N @ Describe job # tl"
    unfolding next_pass by (simp_all add: after_rounds_def)
  from run have "poll svc job s = poll svc job (after_rounds svc job N s)"
    by (rule poll_rounds)
  then show "wait svc job s = wait svc job (after_rounds svc job N s)"
    by (simp add: wait_def)
  fix res s'
  assume "wait svc job s = Some (res, s')"
  then obtain u s1 where p: "poll svc job s = Some (u, s1)" and q: "queries s' = queries s1"
    by (rule wait_Some_poll)
  from p obtain n where stop: "\<not> non_terminal (svc job (queries s + n))"
    and n: "queries s1 = queries s + Suc n"
    by (rule poll_exit_cases)
  from run stop have "N \<le> n"
    by (meson not_le)
  with n q show "queries s + N < queries s'"
    by simp
next
  assume all: "\<forall>i. non_terminal (svc job (queries s + i))"
  then show "wait svc job s = None"
    by (rule wait_diverges)
  fix k
  from all have "\<forall>i<k. non_terminal (svc job (queries s + i))"
    by simp
  then show "poll_upto k svc job s = Inr (after_rounds svc job k s)"
    by (rule poll_upto_rounds)
qed

theorem wait_no_local_timeout_witness:
  "poll_upto 3 scenario_stopped ''job'' notebook_start =
     Inr \<lparr>response = status_only ''STOPPED'',
          compiled_model_path = PStr ''s3://bucket/job/output'',
          queries = 3,
          trace = [Describe ''job'', Print ''Compiling ...'', Sleep 30,
                   Describe ''job'', Print ''Compiling ...'', Sleep 30,
                   Describe ''job'', Print ''Compiling ...'', Sleep 30]\<rparr> \<and>
   queries (state_of (poll_upto 4 scenario_stopped ''job'' notebook_start)) = 4 \<and>
   wait scenario_stopped ''job'' notebook_start = None \<and>
   poll_upto 2 scenario_success ''job'' notebook_start =
     Inr \<lparr>response = status_only ''IN_PROGRESS'',
          compiled_model_path = PStr ''s3://bucket/job/output'',
          queries = 2,
          trace = [Describe ''job'', Print ''Compiling ...'', Sleep 30,
                   Describe ''job'', Print ''Compiling ...'', Sleep 30]\<rparr> \<and>
   queries (state_of (poll_upto 3 scenario_success ''job'' notebook_start)) = 3 \<and>
   wait scenario_success ''job'' notebook_start \<noteq> None"
proof -
  have stopped: "\<forall>i. non_terminal (scenario_stopped ''job'' (queries notebook_start + i))"
    by (simp add: scenario_stopped_def status_only_def non_terminal_def observed_def
        classify_def getitem_def)
  have running: "\<forall>i<2. non_terminal (scenario_success ''job'' (queries notebook_start + i))"
    by (simp add: scenario_success_def notebook_start_def status_only_def non_terminal_def
        observed_def classify_def getitem_def)
  have "\<not> non_terminal (scenario_success ''job'' (queries notebook_start + 2))"
    by (simp add: scenario_success_def notebook_start_def completed_response_def
        non_terminal_def observed_def classify_def getitem_def)
  then have ends: "\<not> (\<forall>i. non_terminal (scenario_success ''job'' (queries notebook_start + i)))"
    by blast
  note a = wait_no_local_timeout [where svc = scenario_stopped and job = "''job''"
      and s = notebook_start and N = 3]
  note b = wait_no_local_timeout [where svc = scenario_success and job = "''job''"
      and s = notebook_start and N = 2]
  from a stopped
  have a1: "poll_upto 3 scenario_stopped ''job'' notebook_start =
      Inr (after_rounds scenario_stopped ''job'' 3 notebook_start)"
    and a2: "queries (state_of (poll_upto (Suc 3) scenario_stopped ''job'' notebook_start)) =
      queries notebook_start + 3 + 1"
    and a3: "wait scenario_stopped ''job'' notebook_start = None"
    by blast+
  from b running
  have b1: "poll_upto 2 scenario_success ''job'' notebook_start =
      Inr (after_rounds scenario_success ''job'' 2 notebook_start)"
    and b2: "queries (state_of (poll_upto (Suc 2) scenario_success ''job'' notebook_start)) =
      queries notebook_start + 2 + 1"
    by blast+
  from b ends have b3: "wait scenario_success ''job'' notebook_start \<noteq> None"
    by blast
  have e1: "after_rounds scenario_stopped ''job'' 3 notebook_start =
      \<lparr>response = status_only ''STOPPED'',
       compiled_model_path = PStr ''s3://bucket/job/output'',
       queries = 3,
       trace = [Describe ''job'', Print ''Compiling ...'', Sleep 30,
                Describe ''job'', Print ''Compiling ...'', Sleep 30,
                Describe ''job'', Print ''Compiling ...'', Sleep 30]\<rparr>"
    by (simp add: after_rounds_def last_response_def scenario_stopped_def notebook_start_def
        compiling_def eval_nat_numeral)
  have e2: "after_rounds scenario_success ''job'' 2 notebook_start =
      \<lparr>response = status_only ''IN_PROGRESS'',
       compiled_model_path = PStr ''s3://bucket/job/output'',
       queries = 2,
       trace = [Describe ''job'', Print ''Compiling ...'', Sleep 30,
                Describe ''job'', Print ''Compiling ...'', Sleep 30]\<rparr>"
    by (simp add: after_rounds_def last_response_def scenario_success_def notebook_start_def
        compiling_def eval_nat_numeral)
  have q: "queries notebook_start = 0"
    by (simp add: notebook_start_def)
  have n4: "Suc 3 = 4" and n3: "Suc 2 = 3"
    by simp_all
  from a1 a2 a3 b1 b2 b3 show ?thesis
    unfolding e1 e2 q n4 n3 by simp
qed

subsection \<open>Runs that are sorted alike\<close>

lemma same_classE:
  assumes "same_class out1 out2"
  obtains r1 a r2 b where "out1 = Inr r1" and "getitem r1 ''CompilationJobStatus'' = Inr a"
    and "out2 = Inr r2" and "getitem r2 ''CompilationJobStatus'' = Inr b"
    and "classify a = classify b"
  using assms
  by (auto simp: same_class_def observed_def split: sum.splits option.splits)

lemma same_class_non_terminal:
  assumes "same_class out1 out2"
  shows "non_terminal out1 \<longleftrightarrow> non_terminal out2"
  using assms
  by (auto simp: same_class_def non_terminal_def split: option.splits)

lemma classify_cases:
  "classify a = classify b \<Longrightarrow>
   (a = PStr ''COMPLETED'' \<and> b = PStr ''COMPLETED'') \<or>
   (a = PStr ''FAILED'' \<and> b = PStr ''FAILED'') \<or>
   (classify a = NonTerminal \<and> classify b = NonTerminal)"
  by (auto simp: classify_def split: if_splits)

lemma wait_completed_effects:
  assumes "\<forall>i<n. non_terminal (svc job (queries s + i))"
    and "svc job (queries s + n) = Inr r"
    and "getitem r ''CompilationJobStatus'' = Inr (PStr ''COMPLETED'')"
  shows "map_option (\<lambda>(res, s'). (queries s', trace s')) (wait svc job s) =
         Some (queries s + Suc n, trace s @ compiling job n @ [Describe job, Print ''Done!''])"
  using wait_completed [where svc = svc and job = job and s = s and n = n and r = r] assms
  by (cases "model_artifacts r") simp_all

text \<open>
  C7. The loop looks at a status only through its two equality tests. If two sequences of
  query outcomes are sorted alike position by position (terminal-success, terminal-failure
  or other), the two runs of the loop end in the same branch, or neither ends, with the
  same number of queries and the same effects; so do the two waits. Nothing is asked of
  the order in which the statuses follow each other.
\<close>

theorem classification_determines_run:
  assumes "\<forall>i. same_class (svc1 job (queries s + i)) (svc2 job (queries s + i))"
  shows "map_option (\<lambda>(res, s'). (res, queries s', trace s')) (poll svc1 job s) =
         map_option (\<lambda>(res, s'). (res, queries s', trace s')) (poll svc2 job s) \<and>
         map_option (\<lambda>(res, s'). (queries s', trace s')) (wait svc1 job s) =
         map_option (\<lambda>(res, s'). (queries s', trace s')) (wait svc2 job s)"
proof (cases "\<forall>i. non_terminal (svc1 job (queries s + i))")
  case True
  with assms have "\<forall>i. non_terminal (svc2 job (queries s + i))"
    using same_class_non_terminal by blast
  then have "poll svc2 job s = None" and "wait svc2 job s = None"
    by (rule poll_diverges, rule wait_diverges)
  moreover from True have "poll svc1 job s = None" and "wait svc1 job s = None"
    by (rule poll_diverges, rule wait_diverges)
  ultimately show ?thesis
    by simp
next
  case False
  define n where "n = (LEAST k. \<not> non_terminal (svc1 job (queries s + k)))"
  from False obtain k where "\<not> non_terminal (svc1 job (queries s + k))"
    by blast
  then have stop: "\<not> non_terminal (svc1 job (queries s + n))"
    unfolding n_def by (rule LeastI)
  have run1: "\<forall>i<n. non_terminal (svc1 job (queries s + i))"
    unfolding n_def using not_less_Least by blast
  with assms have run2: "\<forall>i<n. non_terminal (svc2 job (queries s + i))"
    using same_class_non_terminal by blast
  from assms have "same_class (svc1 job (queries s + n)) (svc2 job (queries s + n))"
    by simp
  then obtain r1 a r2 b where r1: "svc1 job (queries s + n) = Inr r1"
    and a: "getitem r1 ''CompilationJobStatus'' = Inr a"
    and r2: "svc2 job (queries s + n) = Inr r2"
    and b: "getitem r2 ''CompilationJobStatus'' = Inr b"
    and ab: "classify a = classify b"
    by (rule same_classE)
  from stop r1 a have "classify a \<noteq> NonTerminal"
    by (simp add: non_terminal_def observed_def)
  with classify_cases [OF ab] consider
    (completed) "a = PStr ''COMPLETED''" "b = PStr ''COMPLETED''"
    | (failed) "a = PStr ''FAILED''" "b = PStr ''FAILED''"
    by blast
  then show ?thesis
  proof cases
    case completed
    from run1 r1 a [unfolded completed]
    have p1: "poll svc1 job s =
        Some (Inr (), s\<lparr>response := r1, queries := queries s + Suc n,
                         trace := trace s @ compiling job n @ [Describe job]\<rparr>)"
      by (rule poll_completed)
    from run2 r2 b [unfolded completed]
    have p2: "poll svc2 job s =
        Some (Inr (), s\<lparr>response := r2, queries := queries s + Suc n,
                         trace := trace s @ compiling job n @ [Describe job]\<rparr>)"
      by (rule poll_completed)
    from run1 r1 a [unfolded completed]
    have w1: "map_option (\<lambda>(res, s'). (queries s', trace s')) (wait svc1 job s) =
        Some (queries s + Suc n, trace s @ compiling job n @ [Describe job, Print ''Done!''])"
      by (rule wait_completed_effects)
    from run2 r2 b [unfolded completed]
    have w2: "map_option (\<lambda>(res, s'). (queries s', trace s')) (wait svc2 job s) =
        Some (queries s + Suc n, trace s @ compiling job n @ [Describe job, Print ''Done!''])"
      by (rule wait_completed_effects)
    show ?thesis
      unfolding p1 p2 w1 w2 by simp
  next
    case failed
    from run1 r1 a [unfolded failed]
    have p1: "poll svc1 job s =
        Some (Inl (RuntimeError ''Compilation failed''),
              s\<lparr>response := r1, queries := queries s + Suc n,
                trace := trace s @ compiling job n @ [Describe job]\<rparr>)"
      by (rule poll_failed)
    from run2 r2 b [unfolded failed]
    have p2: "poll svc2 job s =
        Some (Inl (RuntimeError ''Compilation failed''),
              s\<lparr>response := r2, queries := queries s + Suc n,
                trace := trace s @ compiling job n @ [Describe job]\<rparr>)"
      by (rule poll_failed)
    show ?thesis
      unfolding wait_def p1 p2 by simp
  qed
qed

theorem classification_determines_run_witness:
  "same_class (scenario_backwards ''job'' 0) (scenario_forwards ''job'' 0) \<and>
   same_class (scenario_backwards ''job'' 1) (scenario_forwards ''job'' 1) \<and>
   same_class (scenario_backwards ''job'' 2) (scenario_forwards ''job'' 2) \<and>
   same_class (scenario_backwards ''job'' 3) (scenario_forwards ''job'' 3) \<and>
   map_option (\<lambda>(res, s'). (res, queries s', trace s'))
     (poll scenario_backwards ''job'' notebook_start) =
   map_option (\<lambda>(res, s'). (res, queries s', trace s'))
     (poll scenario_forwards ''job'' notebook_start) \<and>
   map_option (\<lambda>(res, s'). (queries s', trace s'))
     (wait scenario_backwards ''job'' notebook_start) =
   map_option (\<lambda>(res, s'). (queries s', trace s'))
     (wait scenario_forwards ''job'' notebook_start)"
  using classification_determines_run [where ?svc1.0 = scenario_backwards
      and ?svc2.0 = scenario_forwards and job = "''job''" and s = notebook_start]
  by (simp add: scenario_backwards_def scenario_forwards_def status_only_def
      same_class_def observed_def classify_def getitem_def)

subsection \<open>The code's loop and the specification's waiter\<close>

lemma spec_poll_le_poll:
  assumes "spec_poll d svc job s = Some y" and "d = 30"
  shows "poll svc job s = Some y"
  using assms
proof (induction rule: spec_poll.raw_induct [rotated 1, consumes 1])
  case (1 spec_poll' d svc job s y)
  note IH = "1"(1) and body = "1"(2) and d = "1"(3)
  obtain res s' where y: "y = (res, s')" by (cases y)
  show ?case
    apply (subst poll.simps)
    using body IH d unfolding y
    by (auto simp: Let_def split: sum.splits if_splits)
qed

lemma poll_le_spec_poll:
  assumes "poll svc job s = Some y"
  shows "spec_poll 30 svc job s = Some y"
  using assms
proof (induction rule: poll.raw_induct [rotated 1, consumes 1])
  case (1 poll' svc job s y)
  note IH = "1"(1) and body = "1"(2)
  obtain res s' where y: "y = (res, s')" by (cases y)
  show ?case
    apply (subst spec_poll.simps)
    using body IH unfolding y
    by (auto simp: Let_def split: sum.splits if_splits)
qed

lemma spec_poll_30: "spec_poll 30 svc job s = poll svc job s"
proof (cases "poll svc job s")
  case (Some y)
  then show ?thesis by (simp add: poll_le_spec_poll)
next
  case None
  show ?thesis
  proof (cases "spec_poll 30 svc job s")
    case None
    with \<open>poll svc job s = None\<close> show ?thesis by simp
  next
    case (Some y)
    from spec_poll_le_poll [OF this] None show ?thesis by simp
  qed
qed

lemma spec_poll_60_failure:
  "spec_poll 60 scenario_failure ''job'' notebook_start =
     Some (Inl (RuntimeError ''Compilation failed''),
           \<lparr>response = status_only ''FAILED'',
            compiled_model_path = PStr ''s3://bucket/job/output'',
            queries = 2,
            trace = [Describe ''job'', Print ''Compiling ...'', Sleep 60, Describe ''job'']\<rparr>)"
  apply (subst spec_poll.simps)
  apply (simp add: scenario_failure_def notebook_start_def status_only_def getitem_def)
  apply (subst spec_poll.simps)
  apply (simp add: scenario_failure_def notebook_start_def status_only_def getitem_def)
  done

lemma poll_scenario_failure:
  "poll scenario_failure ''job'' notebook_start =
     Some (Inl (RuntimeError ''Compilation failed''),
           \<lparr>response = status_only ''FAILED'',
            compiled_model_path = PStr ''s3://bucket/job/output'',
            queries = 2,
            trace = [Describe ''job'', Print ''Compiling ...'', Sleep 30, Describe ''job'']\<rparr>)"
  using poll_failed [where svc = scenario_failure and job = "''job''"
      and s = notebook_start and n = 1 and r = "status_only ''FAILED''"]
  by (simp add: scenario_failure_def notebook_start_def status_only_def
      non_terminal_def observed_def classify_def getitem_def compiling_def eval_nat_numeral)

text \<open>
  C6, as the code has it. Consecutive queries are separated by one sleep of exactly 30,
  the literal of \<open>time.sleep(30)\<close>. A wait that ends has issued \<open>n\<close> rounds of query,
  print and sleep of 30, then the last query, followed at most by \<open>print('Done!')\<close>; a
  wait that has observed \<open>N\<close> non-terminal statuses has issued \<open>N\<close> such rounds. The code's
  loop is the specification's waiter with its interval fixed at 30.
\<close>

theorem wait_sleeps_30:
  "(wait svc job s = Some (res, s') \<longrightarrow>
      (\<exists>n tl. trace s' = trace s @ compiling job n @ Describe job # tl \<and>
         (tl = [] \<or> tl = [Print ''Done!'']) \<and>
         sleeps (trace s') = sleeps (trace s) @ replicate n 30)) \<and>
   ((\<forall>i<N. non_terminal (svc job (queries s + i))) \<longrightarrow>
      wait svc job s = wait svc job (after_rounds svc job N s) \<and>
      trace (after_rounds svc job N s) = trace s @ compiling job N \<and>
      sleeps (trace (after_rounds svc job N s)) = sleeps (trace s) @ replicate N 30) \<and>
   spec_poll 30 svc job s = poll svc job s"
proof (intro conjI impI)
  assume "wait svc job s = Some (res, s')"
  then obtain u s1 where p: "poll svc job s = Some (u, s1)"
    and tl: "trace s' = trace s1 \<or> trace s' = trace s1 @ [Print ''Done!'']"
    by (rule wait_Some_poll)
  from p obtain n where n: "trace s1 = trace s @ compiling job n @ [Describe job]"
    by (rule poll_exit_cases)
  from tl show "\<exists>n tl. trace s' = trace s @ compiling job n @ Describe job # tl \<and>
      (tl = [] \<or> tl = [Print ''Done!'']) \<and>
      sleeps (trace s') = sleeps (trace s) @ replicate n 30"
  proof
    assume "trace s' = trace s1"
    with n have "trace s' = trace s @ compiling job n @ Describe job # [] \<and>
        sleeps (trace s') = sleeps (trace s) @ replicate n 30"
      by (simp add: sleeps_append sleeps_compiling)
    then show ?thesis by blast
  next
    assume "trace s' = trace s1 @ [Print ''Done!'']"
    with n have "trace s' = trace s @ compiling job n @ Describe job # [Print ''Done!''] \<and>
        sleeps (trace s') = sleeps (trace s) @ replicate n 30"
      by (simp add: sleeps_append sleeps_compiling)
    then show ?thesis by blast
  qed
next
  assume "\<forall>i<N. non_terminal (svc job (queries s + i))"
  then have "poll svc job s = poll svc job (after_rounds svc job N s)"
    by (rule poll_rounds)
  then show "wait svc job s = wait svc job (after_rounds svc job N s)"
    by (simp add: wait_def)
next
  show "trace (after_rounds svc job N s) = trace s @ compiling job N"
    by (simp add: after_rounds_def)
  then show "sleeps (trace (after_rounds svc job N s)) = sleeps (trace s) @ replicate N 30"
    by (simp add: sleeps_append sleeps_compiling)
next
  show "spec_poll 30 svc job s = poll svc job s"
    by (rule spec_poll_30)
qed

theorem wait_sleeps_30_witness:
  "wait scenario_success ''job'' notebook_start =
     Some (Inr (PStr ''s3://bucket/output/model.tar''),
           \<lparr>response = completed_response,
            compiled_model_path = PStr ''s3://bucket/output/model.tar'',
            queries = 3,
            trace = [Describe ''job'', Print ''Compiling ...'', Sleep 30,
                     Describe ''job'', Print ''Compiling ...'', Sleep 30,
                     Describe ''job'', Print ''Done!'']\<rparr>) \<and>
   (\<exists>n tl. [Describe ''job'', Print ''Compiling ...'', Sleep 30,
            Describe ''job'', Print ''Compiling ...'', Sleep 30,
            Describe ''job'', Print ''Done!''] =
              trace notebook_start @ compiling ''job'' n @ Describe ''job'' # tl \<and>
      (tl = [] \<or> tl = [Print ''Done!'']) \<and>
      sleeps [Describe ''job'', Print ''Compiling ...'', Sleep 30,
              Describe ''job'', Print ''Compiling ...'', Sleep 30,
              Describe ''job'', Print ''Done!''] =
        sleeps (trace notebook_start) @ replicate n 30) \<and>
   sleeps [Describe ''job'', Print ''Compiling ...'', Sleep 30,
           Describe ''job'', Print ''Compiling ...'', Sleep 30,
           Describe ''job'', Print ''Done!''] = [30, 30] \<and>
   sleeps (trace (after_rounds scenario_stopped ''job'' 2 notebook_start)) =
     sleeps (trace notebook_start) @ replicate 2 30"
proof -
  let ?tr = "[Describe ''job'', Print ''Compiling ...'', Sleep 30,
              Describe ''job'', Print ''Compiling ...'', Sleep 30,
              Describe ''job'', Print ''Done!'']"
  let ?s' = "\<lparr>response = completed_response,
      compiled_model_path = PStr ''s3://bucket/output/model.tar'',
      queries = 3, trace = ?tr\<rparr>"
  have w: "wait scenario_success ''job'' notebook_start =
      Some (Inr (PStr ''s3://bucket/output/model.tar''), ?s')"
    using wait_completed [where svc = scenario_success and job = "''job''"
        and s = notebook_start and n = 2 and r = completed_response]
    by (simp add: scenario_success_def notebook_start_def completed_response_def
        status_only_def non_terminal_def observed_def classify_def getitem_def
        model_artifacts_def compiling_def eval_nat_numeral)
  have run: "\<forall>i<2. non_terminal (scenario_stopped ''job'' (queries notebook_start + i))"
    by (simp add: scenario_stopped_def status_only_def non_terminal_def observed_def
        classify_def getitem_def)
  have "wait scenario_success ''job'' notebook_start =
      Some (Inr (PStr ''s3://bucket/output/model.tar''), ?s') \<longrightarrow>
      (\<exists>n tl. trace ?s' = trace notebook_start @ compiling ''job'' n @ Describe ''job'' # tl \<and>
         (tl = [] \<or> tl = [Print ''Done!'']) \<and>
         sleeps (trace ?s') = sleeps (trace notebook_start) @ replicate n 30)"
    using wait_sleeps_30 [where svc = scenario_success and job = "''job''"
      and s = notebook_start and res = "Inr (PStr ''s3://bucket/output/model.tar'')"
      and s' = ?s' and N = 0]
    by (rule conjunct1)
  with w have "\<exists>n tl. trace ?s' = trace notebook_start @ compiling ''job'' n @ Describe ''job'' # tl \<and>
         (tl = [] \<or> tl = [Print ''Done!'']) \<and>
         sleeps (trace ?s') = sleeps (trace notebook_start) @ replicate n 30"
    by (rule rev_mp)
  then have a: "\<exists>n tl. ?tr = trace notebook_start @ compiling ''job'' n @ Describe ''job'' # tl \<and>
         (tl = [] \<or> tl = [Print ''Done!'']) \<and>
         sleeps ?tr = sleeps (trace notebook_start) @ replicate n 30"
    by (simp only: state.simps)
  have b: "sleeps (trace (after_rounds scenario_stopped ''job'' 2 notebook_start)) =
      sleeps (trace notebook_start) @ replicate 2 30"
    using wait_sleeps_30 [where svc = scenario_stopped and job = "''job''"
      and s = notebook_start and N = 2] run
    by blast
  have c: "sleeps ?tr = [30, 30]"
    by simp
  from w a b c show ?thesis by (intro conjI)
qed

text \<open>
  C6, as the claim has it, fails: the duration is no parameter of the code. Where the
  specification's waiter configured with an interval of 60 sleeps 60 between two queries,
  the code's loop sleeps 30.
\<close>

theorem sleep_interval_counterexample:
  "map_option (sleeps \<circ> trace \<circ> snd) (spec_poll 60 scenario_failure ''job'' notebook_start) =
     Some [60] \<and>
   map_option (sleeps \<circ> trace \<circ> snd) (poll scenario_failure ''job'' notebook_start) =
     Some [30]"
  by (simp add: spec_poll_60_failure poll_scenario_failure)

end
